theory Spec2Isabelle
  imports Main
begin

section \<open>Data model\<close>

text \<open>
  A host audio device as \<^verbatim>\<open>soundcard\<close> hands it out: the program reads only the
  attributes \<^verbatim>\<open>id\<close> and \<^verbatim>\<open>name\<close> of it.
\<close>

record device =
  dev_id :: string
  dev_name :: string

text \<open>The exceptions the program can raise or meet.\<close>

datatype py_error = IndexError | ValueError | KeyError | AttributeError | TypeError

text \<open>
  \<^verbatim>\<open>select_device\<close>, \<^verbatim>\<open>device_by_name\<close> and \<^verbatim>\<open>device_by_id\<close> return a device object,
  \<^verbatim>\<open>None\<close> or the string \<^verbatim>\<open>'default'\<close>: one dynamic type of Python values.
\<close>

datatype pyval = PyNone | PyStr string | PyDevice device

text \<open>
  Python's truth test, as \<^verbatim>\<open>if not device\<close> applies it: \<^verbatim>\<open>None\<close> and the empty string
  are false, a device object is true.
\<close>

fun truthy :: "pyval \<Rightarrow> bool" where
  "truthy PyNone = False"
| "truthy (PyStr s) = (s \<noteq> [])"
| "truthy (PyDevice d) = True"

text \<open>The two attribute names that are ever passed to \<^verbatim>\<open>getattr(d, prop)\<close>.\<close>

datatype attr = Attr_name | Attr_id

fun getattr :: "device \<Rightarrow> attr \<Rightarrow> string" where
  "getattr d Attr_name = dev_name d"
| "getattr d Attr_id = dev_id d"

text \<open>
  The \<^verbatim>\<open>soundcard\<close> module: what \<^verbatim>\<open>all_speakers()\<close> and \<^verbatim>\<open>all_microphones()\<close>
  enumerate, in enumeration order.
\<close>

record soundcard =
  all_speakers :: "device list"
  all_microphones :: "device list"

text \<open>The fields of an \<^verbatim>\<open>AudioDeviceManager\<close>, set once by its constructor.\<close>

record audio_device_manager =
  default_output :: string
  default_input :: string

text \<open>
  One entry of \<^verbatim>\<open>config['inputs']\<close> or \<^verbatim>\<open>config['outputs']\<close>, and the two lists
  of the configuration that a synchronisation pass reads.
\<close>

record route =
  obs_device :: string
  device_name :: string

record config =
  inputs :: "route list"
  outputs :: "route list"

text \<open>
  The three requests the program sends through \<^verbatim>\<open>ws.call\<close>, each with its payload
  (\<^verbatim>\<open>sourceName\<close>, then \<^verbatim>\<open>sourceSettings.device_id\<close>), and the shapes of the answers:
  the dictionary of special sources (key order kept, the \<^verbatim>\<open>status\<close> entry included),
  the \<^verbatim>\<open>sourceSettings.device_id\<close> of a source (absent when the source has none), and
  a plain acknowledgement.
\<close>

datatype request =
  GetSpecialSources
| GetSourceSettings string
| SetSourceSettings string string

datatype response =
  SpecialSources "(string \<times> string) list"
| SourceSettings "string option"
| Ack

text \<open>
  Everything the program does to the outside, in the order it does it: a line printed
  to the console, and the three operations of the transport \<^verbatim>\<open>simpleobsws.obsws\<close>.
\<close>

datatype event = Print string | WsConnect | WsDisconnect | WsCall request

text \<open>
  The state a run threads through: the host enumeration, the remote controller (its
  answer to \<^verbatim>\<open>GetSpecialSources\<close> and the device id it holds for each source), the
  field \<^verbatim>\<open>connected\<close> of the \<^verbatim>\<open>OBSWebsocket\<close> object, and the events so far.
\<close>

record world =
  host :: soundcard
  special_sources :: "(string \<times> string) list"
  source_settings :: "string \<Rightarrow> string option"
  connected :: bool
  events :: "event list"

definition emit :: "event \<Rightarrow> world \<Rightarrow> world" where
  "emit e w = w\<lparr>events := events w @ [e]\<rparr>"

definition print :: "string \<Rightarrow> world \<Rightarrow> world" where
  "print s w = emit (Print s) w"

section \<open>AudioDeviceManager\<close>

text \<open>
  \<^verbatim>\<open>device = list(filter(lambda d: getattr(d, prop) == value, devices)); return device[0]\<close>:
  the first match, and \<^verbatim>\<open>IndexError\<close> when nothing matches.
\<close>

definition first_match :: "attr \<Rightarrow> string \<Rightarrow> device list \<Rightarrow> py_error + pyval" where
  "first_match prop val devices =
     (case filter (\<lambda>d. getattr d prop = val) devices of
        [] \<Rightarrow> Inl IndexError
      | d # _ \<Rightarrow> Inr (PyDevice d))"

text \<open>
  \<^verbatim>\<open>select_device(self, prop, value, is_input=None)\<close>. The recursion on \<^verbatim>\<open>'default'\<close>
  has no base case of its own, so the function is partial: \<open>None\<close> stands for a call
  that never returns a value (CPython ends such a recursion with \<^verbatim>\<open>RecursionError\<close>).
  Both recursive calls pass \<^verbatim>\<open>True\<close> as the direction, as the source does.
\<close>

partial_function (option) select_device ::
  "soundcard \<Rightarrow> audio_device_manager \<Rightarrow> attr \<Rightarrow> string \<Rightarrow> bool option
     \<Rightarrow> (py_error + pyval) option"
where [code]:
  "select_device sc self prop val is_input =
     (case is_input of
        None \<Rightarrow>
          (let devices = all_speakers sc @ all_microphones sc in
           if val = ''default'' then Some (Inr PyNone)
           else Some (first_match prop val devices))
      | Some b \<Rightarrow>
          if b then
            (if val = ''default''
             then select_device sc self Attr_name (default_input self) (Some True)
             else Some (first_match prop val (all_microphones sc)))
          else
            (if val = ''default''
             then select_device sc self Attr_name (default_output self) (Some True)
             else Some (first_match prop val (all_speakers sc))))"

definition get_default ::
  "soundcard \<Rightarrow> audio_device_manager \<Rightarrow> bool \<Rightarrow> (py_error + pyval) option" where
  "get_default sc self is_input = select_device sc self Attr_name ''default'' (Some is_input)"

text \<open>A string between two apostrophes, as the format strings write \<^verbatim>\<open>'{}'\<close>.\<close>

definition quoted :: "string \<Rightarrow> string" where
  "quoted s = CHR 0x27 # s @ [CHR 0x27]"

definition template :: "bool \<Rightarrow> device \<Rightarrow> string" where
  "template with_ids d =
     (if with_ids then ''ID: '' @ quoted (dev_id d) @ '' Name: '' @ quoted (dev_name d)
      else dev_name d)"

text \<open>
  \<^verbatim>\<open>print_device_listing(with_ids=False)\<close>: the output devices under their heading,
  then the input devices under theirs; a group with no device prints nothing.
\<close>

definition print_device_listing :: "bool \<Rightarrow> world \<Rightarrow> world" where
  "print_device_listing with_ids w =
     (let speakers = all_speakers (host w);
          w1 = (if speakers \<noteq> []
                then fold (\<lambda>d. print (template with_ids d)) (all_speakers (host w))
                       (print (CHR 0x0A # ''Available audio output devices:'') w)
                else w);
          mics = all_microphones (host w1)
      in if mics \<noteq> []
         then fold (\<lambda>d. print (template with_ids d)) mics
                (print (CHR 0x0A # ''Available audio input devices:'') w1)
         else w1)"

text \<open>
  \<^verbatim>\<open>device_by_name(self, name, is_input=True, replace_default=False)\<close>. Only the call
  of \<^verbatim>\<open>select_device\<close> stands inside the \<^verbatim>\<open>try\<close>; \<^verbatim>\<open>get_default\<close> is called outside
  it, so an \<^verbatim>\<open>IndexError\<close> from there is passed on as it is.
\<close>

definition device_by_name ::
  "audio_device_manager \<Rightarrow> string \<Rightarrow> bool \<Rightarrow> bool \<Rightarrow> world
     \<Rightarrow> ((py_error + pyval) \<times> world) option" where
  "device_by_name self name is_input replace_default w =
     (if replace_default \<and> name = ''default''
      then (case get_default (host w) self is_input of
              None \<Rightarrow> None
            | Some r \<Rightarrow> Some (r, w))
      else (case select_device (host w) self Attr_name name (Some is_input) of
              None \<Rightarrow> None
            | Some (Inl e) \<Rightarrow>
                if e = IndexError
                then Some (Inl ValueError,
                       print_device_listing False
                         (print (''Windows does not have a device called '' @ name) w))
                else Some (Inl e, w)
            | Some (Inr device) \<Rightarrow> Some (Inr device, w)))"

definition input_by_name ::
  "audio_device_manager \<Rightarrow> string \<Rightarrow> bool \<Rightarrow> world \<Rightarrow> ((py_error + pyval) \<times> world) option" where
  "input_by_name self name replace_default w = device_by_name self name True replace_default w"

definition output_by_name ::
  "audio_device_manager \<Rightarrow> string \<Rightarrow> bool \<Rightarrow> world \<Rightarrow> ((py_error + pyval) \<times> world) option" where
  "output_by_name self name replace_default w = device_by_name self name False replace_default w"

text \<open>
  \<^verbatim>\<open>device_by_id(self, id)\<close>: \<^verbatim>\<open>select_device('id', id)\<close> with no direction, and the
  handler of \<^verbatim>\<open>IndexError\<close>. It prints nothing.
\<close>

definition device_by_id ::
  "soundcard \<Rightarrow> audio_device_manager \<Rightarrow> string \<Rightarrow> (py_error + pyval) option" where
  "device_by_id sc self ident =
     (case select_device sc self Attr_id ident None of
        None \<Rightarrow> None
      | Some (Inl e) \<Rightarrow>
          if e = IndexError
          then (if ident = ''default'' then Some (Inr (PyStr ''default'')) else Some (Inr PyNone))
          else Some (Inl e)
      | Some (Inr device) \<Rightarrow> Some (Inr device))"

section \<open>OBSWebsocket\<close>

text \<open>
  The transport's \<^verbatim>\<open>call\<close> (the library \<^verbatim>\<open>simpleobsws\<close>, outside the repository): the
  request goes into the event list and the remote controller answers from its state;
  \<^verbatim>\<open>SetSourceSettings\<close> stores the device id it is given. The transport itself is
  taken to succeed.
\<close>

fun ws_call :: "request \<Rightarrow> world \<Rightarrow> response \<times> world" where
  "ws_call GetSpecialSources w =
     (SpecialSources (special_sources w), emit (WsCall GetSpecialSources) w)"
| "ws_call (GetSourceSettings source_name) w =
     (SourceSettings (source_settings w source_name),
      emit (WsCall (GetSourceSettings source_name)) w)"
| "ws_call (SetSourceSettings source_name ident) w =
     (Ack,
      emit (WsCall (SetSourceSettings source_name ident))
        (w\<lparr>source_settings := (source_settings w)(source_name \<mapsto> ident)\<rparr>))"

definition connect :: "world \<Rightarrow> world" where
  "connect w =
     (if \<not> connected w
      then print ''OBS WebSocket connection established.''
             ((emit WsConnect w)\<lparr>connected := True\<rparr>)
      else w)"

definition disconnect :: "world \<Rightarrow> world" where
  "disconnect w =
     (if connected w
      then print ''OBS WebSocket disconnected.''
             ((emit WsDisconnect w)\<lparr>connected := False\<rparr>)
      else w)"

definition call :: "request \<Rightarrow> world \<Rightarrow> response \<times> world" where
  "call req w = ws_call req (connect w)"

text \<open>
  \<^verbatim>\<open>get_audio_devices\<close>: \<^verbatim>\<open>del result['status']\<close> raises \<^verbatim>\<open>KeyError\<close> when the answer
  has no such key; the values of the other entries are returned in order.
\<close>

definition get_audio_devices :: "world \<Rightarrow> (py_error + string list) \<times> world" where
  "get_audio_devices w =
     (case ws_call GetSpecialSources (connect w) of
        (SpecialSources result, w') \<Rightarrow>
          if ''status'' \<in> set (map fst result)
          then (Inr (map snd (filter (\<lambda>kv. fst kv \<noteq> ''status'') result)), w')
          else (Inl KeyError, w')
      | (_, w') \<Rightarrow> (Inl TypeError, w'))"

definition get_obs_audio_device_name :: "string \<Rightarrow> world \<Rightarrow> (py_error + string) \<times> world" where
  "get_obs_audio_device_name device w =
     (case ws_call GetSpecialSources (connect w) of
        (SpecialSources result, w') \<Rightarrow>
          (case map_of result device of
             None \<Rightarrow> (Inl KeyError, w')
           | Some label \<Rightarrow> (Inr label, w'))
      | (_, w') \<Rightarrow> (Inl TypeError, w'))"

definition get_audiodevice_settings :: "string \<Rightarrow> world \<Rightarrow> response \<times> world" where
  "get_audiodevice_settings source w = ws_call (GetSourceSettings source) (connect w)"

text \<open>
  The body of the loop of \<^verbatim>\<open>print_sources_settings\<close>, over the names that
  \<^verbatim>\<open>get_audio_devices\<close> returned, and the function itself.
\<close>

fun report_sources ::
  "audio_device_manager \<Rightarrow> string list \<Rightarrow> world \<Rightarrow> ((py_error + unit) \<times> world) option" where
  "report_sources adm [] w = Some (Inr (), w)"
| "report_sources adm (obs_device_name # rest) w =
     (case get_audiodevice_settings obs_device_name w of
        (SourceSettings None, w1) \<Rightarrow> Some (Inl KeyError, w1)
      | (SourceSettings (Some device_id), w1) \<Rightarrow>
          (case device_by_id (host w1) adm device_id of
             None \<Rightarrow> None
           | Some (Inl e) \<Rightarrow> Some (Inl e, w1)
           | Some (Inr device) \<Rightarrow>
               if \<not> truthy device
               then report_sources adm rest
                      (print (obs_device_name @ '' is set to a device-id unknown to Windows: ''
                                @ quoted device_id) w1)
               else if device = PyStr ''default''
               then report_sources adm rest
                      (print (obs_device_name @ '' is set to '' @ quoted ''default'') w1)
               else (case device of
                       PyDevice d \<Rightarrow>
                         report_sources adm rest
                           (print (obs_device_name @ '' is set to '' @ quoted (dev_name d)) w1)
                     | _ \<Rightarrow> Some (Inl AttributeError, w1)))
      | (_, w1) \<Rightarrow> Some (Inl TypeError, w1))"

definition print_sources_settings ::
  "audio_device_manager \<Rightarrow> world \<Rightarrow> ((py_error + unit) \<times> world) option" where
  "print_sources_settings adm w =
     (case get_audio_devices (connect w) of
        (Inl e, w1) \<Rightarrow> Some (Inl e, w1)
      | (Inr device_names, w1) \<Rightarrow> report_sources adm device_names w1)"

section \<open>The synchronisation pass\<close>

text \<open>
  \<^verbatim>\<open>set_obs_source(ws, source_name, device)\<close>: reading \<^verbatim>\<open>device.name\<close> of anything but
  a device object raises \<^verbatim>\<open>AttributeError\<close> before anything is printed or sent.
\<close>

definition set_obs_source :: "string \<Rightarrow> pyval \<Rightarrow> world \<Rightarrow> (py_error + unit) \<times> world" where
  "set_obs_source source_name device w =
     (case device of
        PyDevice d \<Rightarrow>
          (Inr (),
           snd (call (SetSourceSettings source_name (dev_id d))
                  (print (''Setting OBS source '' @ source_name @ '' to Windows device ''
                            @ dev_name d) w)))
      | _ \<Rightarrow> (Inl AttributeError, w))"

text \<open>
  The body shared by the two loops of \<^verbatim>\<open>set_audio_device_settings\<close>: the loop over
  \<^verbatim>\<open>inputs\<close> resolves with \<^verbatim>\<open>input_by_name\<close>, the loop over \<^verbatim>\<open>outputs\<close> with
  \<^verbatim>\<open>output_by_name\<close>. Nothing catches an exception here: the first one ends the loop
  and the pass.
\<close>

fun apply_routes ::
  "audio_device_manager \<Rightarrow> bool \<Rightarrow> route list \<Rightarrow> world \<Rightarrow> ((py_error + unit) \<times> world) option"
where
  "apply_routes adm is_input [] w = Some (Inr (), w)"
| "apply_routes adm is_input (conf # confs) w =
     (case get_obs_audio_device_name (obs_device conf) w of
        (Inl e, w1) \<Rightarrow> Some (Inl e, w1)
      | (Inr source_name, w1) \<Rightarrow>
          (case (if is_input then input_by_name else output_by_name)
                  adm (device_name conf) True w1 of
             None \<Rightarrow> None
           | Some (Inl e, w2) \<Rightarrow> Some (Inl e, w2)
           | Some (Inr device, w2) \<Rightarrow>
               (case set_obs_source source_name device w2 of
                  (Inl e, w3) \<Rightarrow> Some (Inl e, w3)
                | (Inr u, w3) \<Rightarrow> apply_routes adm is_input confs w3)))"

definition set_audio_device_settings ::
  "config \<Rightarrow> audio_device_manager \<Rightarrow> world \<Rightarrow> ((py_error + unit) \<times> world) option" where
  "set_audio_device_settings cfg adm w =
     (case (if inputs cfg \<noteq> []
            then apply_routes adm True (inputs cfg)
                   (print (CHR 0x0A # ''Setting Input devices'') w)
            else Some (Inr (), w)) of
        None \<Rightarrow> None
      | Some (Inl e, w1) \<Rightarrow> Some (Inl e, w1)
      | Some (Inr u, w1) \<Rightarrow>
          if outputs cfg \<noteq> []
          then apply_routes adm False (outputs cfg)
                 (print (CHR 0x0A # ''Setting Output devices'') w1)
          else Some (Inr (), w1))"

section \<open>Reading the event list\<close>

text \<open>The \<^verbatim>\<open>SetSourceSettings\<close> requests of an event list, as (source name, device id).\<close>

fun set_calls :: "event list \<Rightarrow> (string \<times> string) list" where
  "set_calls [] = []"
| "set_calls (WsCall (SetSourceSettings source_name ident) # es) =
     (source_name, ident) # set_calls es"
| "set_calls (e # es) = set_calls es"

text \<open>All requests of an event list, in order.\<close>

fun rpc_calls :: "event list \<Rightarrow> request list" where
  "rpc_calls [] = []"
| "rpc_calls (WsCall req # es) = req # rpc_calls es"
| "rpc_calls (e # es) = rpc_calls es"

text \<open>The lines printed, in order.\<close>

fun printed :: "event list \<Rightarrow> string list" where
  "printed [] = []"
| "printed (Print s # es) = s # printed es"
| "printed (e # es) = printed es"

text \<open>
  The transport as an automaton over an event list, started in the state \<open>c\<close>
  (connected or not): \<open>WsConnect\<close> is accepted only when disconnected, \<open>WsDisconnect\<close>
  and \<open>WsCall\<close> only when connected, a printed line always. The result is the state at
  the end, and \<open>None\<close> when some event was not accepted.
\<close>

fun transport :: "bool \<Rightarrow> event list \<Rightarrow> bool option" where
  "transport c [] = Some c"
| "transport c (Print s # es) = transport c es"
| "transport c (WsConnect # es) = (if c then None else transport True es)"
| "transport c (WsDisconnect # es) = (if c then transport False es else None)"
| "transport c (WsCall req # es) = (if c then transport True es else None)"

text \<open>
  A session is in order when the transport, started disconnected (as \<^verbatim>\<open>__init__\<close>
  leaves it), accepted every event so far and its state is what the field
  \<^verbatim>\<open>connected\<close> says.
\<close>

definition session_ok :: "world \<Rightarrow> bool" where
  "session_ok w = (transport False (events w) = Some (connected w))"

text \<open>
  What one round of a loop of \<^verbatim>\<open>set_audio_device_settings\<close> sends for a route, read
  off the loop body: the label that \<^verbatim>\<open>GetSpecialSources\<close> gives for its \<^verbatim>\<open>obs_device\<close>
  and the id of the device its \<^verbatim>\<open>device_name\<close> resolves to in the loop's direction;
  \<open>None\<close> when one of the two lookups has no result.
\<close>

definition route_call ::
  "soundcard \<Rightarrow> (string \<times> string) list \<Rightarrow> audio_device_manager \<Rightarrow> bool \<Rightarrow> route
     \<Rightarrow> (string \<times> string) option" where
  "route_call sc sp adm is_input conf =
     (case map_of sp (obs_device conf) of
        None \<Rightarrow> None
      | Some label \<Rightarrow>
          (case select_device sc adm Attr_name (device_name conf) (Some is_input) of
             Some (Inr (PyDevice d)) \<Rightarrow> Some (label, dev_id d)
           | _ \<Rightarrow> None))"

text \<open>
  The routes of a configuration in the order the pass takes them, each with the
  direction of its loop (\<open>True\<close> for \<^verbatim>\<open>inputs\<close>).
\<close>

definition routes :: "config \<Rightarrow> (bool \<times> route) list" where
  "routes cfg = map (Pair True) (inputs cfg) @ map (Pair False) (outputs cfg)"

section \<open>The configuration of the source, and a host to run it on\<close>

text \<open>
  The dictionary \<^verbatim>\<open>config\<close> at the head of the source, and the manager its
  \<^verbatim>\<open>defaultInput\<close> and \<^verbatim>\<open>defaultOutput\<close> give.
\<close>

definition source_config :: config where
  "source_config =
     \<lparr>inputs = [\<lparr>obs_device = ''mic-1'', device_name = ''Headset Microphone (Rift S)''\<rparr>,
                \<lparr>obs_device = ''mic-2'', device_name = ''default''\<rparr>],
      outputs = [\<lparr>obs_device = ''desktop-1'', device_name = ''Speakers (USB Audio Device)''\<rparr>]\<rparr>"

definition source_adm :: audio_device_manager where
  "source_adm =
     \<lparr>default_output = ''Speakers (USB Audio Device)'',
      default_input = ''Headset Microphone (Rift S)''\<rparr>"

text \<open>
  A host with the two devices that configuration names, and a remote controller with
  its three special sources, all set to \<^verbatim>\<open>'default'\<close>; the session not yet connected.
\<close>

definition rift :: device where
  "rift = \<lparr>dev_id = ''A1'', dev_name = ''Headset Microphone (Rift S)''\<rparr>"

definition usb_speakers :: device where
  "usb_speakers = \<lparr>dev_id = ''S1'', dev_name = ''Speakers (USB Audio Device)''\<rparr>"

definition example_host :: soundcard where
  "example_host = \<lparr>all_speakers = [usb_speakers], all_microphones = [rift]\<rparr>"

definition example_world :: world where
  "example_world =
     \<lparr>host = example_host,
      special_sources = [(''status'', ''ok''), (''desktop-1'', ''Desktop Audio''),
                         (''mic-1'', ''Mic/Aux''), (''mic-2'', ''Mic/Aux 2'')],
      source_settings = [''Desktop Audio'' \<mapsto> ''default'', ''Mic/Aux'' \<mapsto> ''default'',
                         ''Mic/Aux 2'' \<mapsto> ''default''],
      connected = False,
      events = []\<rparr>"

section \<open>Basic facts\<close>

subsection \<open>Fields of the state after each primitive\<close>

lemma emit_fields [simp]:
  "host (emit e w) = host w"
  "special_sources (emit e w) = special_sources w"
  "source_settings (emit e w) = source_settings w"
  "connected (emit e w) = connected w"
  "events (emit e w) = events w @ [e]"
  by (simp_all add: emit_def)

lemma print_fields [simp]:
  "host (print s w) = host w"
  "special_sources (print s w) = special_sources w"
  "source_settings (print s w) = source_settings w"
  "connected (print s w) = connected w"
  "events (print s w) = events w @ [Print s]"
  by (simp_all add: print_def)

lemma fold_print_fields [simp]:
  "host (fold (\<lambda>d. print (f d)) ds w) = host w"
  "special_sources (fold (\<lambda>d. print (f d)) ds w) = special_sources w"
  "source_settings (fold (\<lambda>d. print (f d)) ds w) = source_settings w"
  "connected (fold (\<lambda>d. print (f d)) ds w) = connected w"
  "events (fold (\<lambda>d. print (f d)) ds w) = events w @ map (\<lambda>d. Print (f d)) ds"
  by (induction ds arbitrary: w) simp_all

lemma connect_fields [simp]:
  "host (connect w) = host w"
  "special_sources (connect w) = special_sources w"
  "source_settings (connect w) = source_settings w"
  "connected (connect w) = True"
  "events (connect w) =
     events w @ (if connected w then []
                 else [WsConnect, Print ''OBS WebSocket connection established.''])"
  by (simp_all add: connect_def)

lemma disconnect_fields [simp]:
  "host (disconnect w) = host w"
  "special_sources (disconnect w) = special_sources w"
  "source_settings (disconnect w) = source_settings w"
  "connected (disconnect w) = False"
  "events (disconnect w) =
     events w @ (if connected w then [WsDisconnect, Print ''OBS WebSocket disconnected.'']
                 else [])"
  by (simp_all add: disconnect_def)

lemma ws_call_fields [simp]:
  "host (snd (ws_call req w)) = host w"
  "special_sources (snd (ws_call req w)) = special_sources w"
  "connected (snd (ws_call req w)) = connected w"
  "events (snd (ws_call req w)) = events w @ [WsCall req]"
  by (cases req; simp)+

lemma call_fields [simp]:
  "host (snd (call req w)) = host w"
  "special_sources (snd (call req w)) = special_sources w"
  "connected (snd (call req w)) = True"
  "events (snd (call req w)) = events (connect w) @ [WsCall req]"
  by (simp_all add: call_def)

lemma print_device_listing_fields [simp]:
  "host (print_device_listing with_ids w) = host w"
  "special_sources (print_device_listing with_ids w) = special_sources w"
  "source_settings (print_device_listing with_ids w) = source_settings w"
  "connected (print_device_listing with_ids w) = connected w"
  by (simp_all add: print_device_listing_def Let_def)

lemma print_device_listing_events:
  "events (print_device_listing with_ids w) =
     events w
     @ (if all_speakers (host w) = [] then []
        else Print (CHR 0x0A # ''Available audio output devices:'')
             # map (\<lambda>d. Print (template with_ids d)) (all_speakers (host w)))
     @ (if all_microphones (host w) = [] then []
        else Print (CHR 0x0A # ''Available audio input devices:'')
             # map (\<lambda>d. Print (template with_ids d)) (all_microphones (host w)))"
  by (simp add: print_device_listing_def Let_def)

subsection \<open>Projections of an event list\<close>

lemma set_calls_append [simp]: "set_calls (xs @ ys) = set_calls xs @ set_calls ys"
  by (induction xs rule: set_calls.induct) simp_all

lemma rpc_calls_append [simp]: "rpc_calls (xs @ ys) = rpc_calls xs @ rpc_calls ys"
  by (induction xs rule: rpc_calls.induct) simp_all

lemma printed_append [simp]: "printed (xs @ ys) = printed xs @ printed ys"
  by (induction xs rule: printed.induct) simp_all

lemma set_calls_Print [simp]: "set_calls (map (\<lambda>d. Print (f d)) ds) = []"
  by (induction ds) simp_all

lemma rpc_calls_Print [simp]: "rpc_calls (map (\<lambda>d. Print (f d)) ds) = []"
  by (induction ds) simp_all

lemma printed_Print [simp]: "printed (map (\<lambda>d. Print (f d)) ds) = map f ds"
  by (induction ds) simp_all

subsection \<open>The equations of \<open>select_device\<close>, case by case\<close>

lemma select_device_undirected:
  "select_device sc self p v None =
     Some (if v = ''default'' then Inr PyNone
           else first_match p v (all_speakers sc @ all_microphones sc))"
  by (subst select_device.simps) simp

lemma select_device_named:
  "v \<noteq> ''default'' \<Longrightarrow>
   select_device sc self p v (Some b) =
     Some (first_match p v (if b then all_microphones sc else all_speakers sc))"
  by (subst select_device.simps) simp

lemma select_device_default_input:
  "select_device sc self p ''default'' (Some True) =
     select_device sc self Attr_name (default_input self) (Some True)"
  by (subst select_device.simps) simp

lemma select_device_default_output:
  "select_device sc self p ''default'' (Some False) =
     select_device sc self Attr_name (default_output self) (Some True)"
  by (subst select_device.simps) simp

text \<open>
  No call with the value \<^verbatim>\<open>'default'\<close> and the direction \<^verbatim>\<open>True\<close> returns when the
  default input name is itself \<^verbatim>\<open>'default'\<close>: by induction on the fixed point, the
  call could only return what the same call returns.
\<close>

lemma select_device_loops_aux:
  assumes "select_device sc self p v d = Some r"
  shows "\<not> (default_input self = ''default'' \<and> v = ''default'' \<and> d = Some True)"
proof (rule select_device.raw_induct
         [where P = "\<lambda>sc self p v d r.
                       \<not> (default_input self = ''default'' \<and> v = ''default'' \<and> d = Some True)",
          OF _ assms])
  fix f and sc' :: soundcard and self' :: audio_device_manager and p' v' d' r'
  assume IH: "\<And>sc self p v d r. f sc self p v d = Some r \<Longrightarrow>
                \<not> (default_input self = ''default'' \<and> v = ''default'' \<and> d = Some True)"
    and step: "(case d' of
        None \<Rightarrow>
          (let devices = all_speakers sc' @ all_microphones sc' in
           if v' = ''default'' then Some (Inr PyNone)
           else Some (first_match p' v' devices))
      | Some b \<Rightarrow>
          if b then
            (if v' = ''default''
             then f sc' self' Attr_name (default_input self') (Some True)
             else Some (first_match p' v' (all_microphones sc')))
          else
            (if v' = ''default''
             then f sc' self' Attr_name (default_output self') (Some True)
             else Some (first_match p' v' (all_speakers sc')))) = Some r'"
  show "\<not> (default_input self' = ''default'' \<and> v' = ''default'' \<and> d' = Some True)"
  proof
    assume a: "default_input self' = ''default'' \<and> v' = ''default'' \<and> d' = Some True"
    with step have "f sc' self' Attr_name ''default'' (Some True) = Some r'" by simp
    from IH[OF this] a show False by simp
  qed
qed

lemma select_device_loops:
  "default_input self = ''default'' \<Longrightarrow> select_device sc self p ''default'' (Some True) = None"
  using select_device_loops_aux[of sc self p "''default''" "Some True"]
  by (cases "select_device sc self p ''default'' (Some True)") auto

lemma select_device_returns:
  assumes "default_input self \<noteq> ''default''"
  shows "\<exists>r. select_device sc self p v d = Some r"
proof (cases d)
  case None
  then show ?thesis by (simp add: select_device_undirected)
next
  case (Some b)
  show ?thesis
  proof (cases "v = ''default''")
    case False
    with Some show ?thesis by (simp add: select_device_named)
  next
    case True
    have inp: "\<exists>r. select_device sc self q ''default'' (Some True) = Some r" for q
      using assms by (simp add: select_device_default_input select_device_named)
    show ?thesis
    proof (cases b)
      case True
      with Some \<open>v = ''default''\<close> inp show ?thesis by simp
    next
      case False
      with Some \<open>v = ''default''\<close> inp assms show ?thesis
        by (cases "default_output self = ''default''")
           (simp_all add: select_device_default_output select_device_named)
    qed
  qed
qed

subsection \<open>Resolution by name and by id, in closed form\<close>

lemma device_by_id_closed:
  "device_by_id sc self ident =
     Some (if ident = ''default'' then Inr PyNone
           else (case filter (\<lambda>d. dev_id d = ident) (all_speakers sc @ all_microphones sc) of
                   [] \<Rightarrow> Inr PyNone
                 | d # _ \<Rightarrow> Inr (PyDevice d)))"
  by (simp add: device_by_id_def select_device_undirected first_match_def split: list.splits)

lemma device_by_name_returns:
  assumes "default_input self \<noteq> ''default''"
  shows "\<exists>r. device_by_name self name is_input replace_default w = Some r"
proof -
  obtain r1 where r1: "select_device (host w) self Attr_name ''default'' (Some is_input) = Some r1"
    using select_device_returns[OF assms] by blast
  obtain r2 where r2: "select_device (host w) self Attr_name name (Some is_input) = Some r2"
    using select_device_returns[OF assms] by blast
  show ?thesis
    by (simp add: device_by_name_def get_default_def r1 r2 split: sum.splits)
qed

lemmas example_defs =
  example_world_def example_host_def rift_def usb_speakers_def source_adm_def source_config_def

subsection \<open>One round of the loop\<close>

lemma get_obs_audio_device_name_closed:
  "get_obs_audio_device_name dv w =
     ((case map_of (special_sources w) dv of None \<Rightarrow> Inl KeyError | Some label \<Rightarrow> Inr label),
      emit (WsCall GetSpecialSources) (connect w))"
  by (simp add: get_obs_audio_device_name_def split: option.splits)

lemma device_by_name_replace:
  "device_by_name adm name d True w =
     (case select_device (host w) adm Attr_name name (Some d) of
        None \<Rightarrow> None
      | Some (Inl e) \<Rightarrow>
          if e = IndexError \<and> name \<noteq> ''default''
          then Some (Inl ValueError,
                 print_device_listing False
                   (print (''Windows does not have a device called '' @ name) w))
          else Some (Inl e, w)
      | Some (Inr v) \<Rightarrow> Some (Inr v, w))"
  by (simp add: device_by_name_def get_default_def split: option.splits sum.splits)

lemma set_calls_listing [simp]:
  "set_calls (events (print_device_listing with_ids w)) = set_calls (events w)"
  by (simp add: print_device_listing_events)

lemma set_calls_connect [simp]: "set_calls (events (connect w)) = set_calls (events w)"
  by simp

lemma apply_routes_Cons_ok:
  assumes "route_call (host w) (special_sources w) adm d conf = Some c"
  shows "\<exists>w1. apply_routes adm d (conf # confs) w = apply_routes adm d confs w1 \<and>
           host w1 = host w \<and> special_sources w1 = special_sources w \<and> connected w1 \<and>
           set_calls (events w1) = set_calls (events w) @ [c]"
proof -
  from assms obtain label dev where
    l: "map_of (special_sources w) (obs_device conf) = Some label" and
    s: "select_device (host w) adm Attr_name (device_name conf) (Some d) = Some (Inr (PyDevice dev))" and
    c: "c = (label, dev_id dev)"
    by (auto simp: route_call_def split: option.splits sum.splits pyval.splits)
  let ?w1 = "snd (set_obs_source label (PyDevice dev)
                    (emit (WsCall GetSpecialSources) (connect w)))"
  from l s have "apply_routes adm d (conf # confs) w = apply_routes adm d confs ?w1"
    by (cases d)
       (simp_all add: get_obs_audio_device_name_closed input_by_name_def output_by_name_def
          device_by_name_replace set_obs_source_def)
  moreover have "host ?w1 = host w" "special_sources ?w1 = special_sources w" "connected ?w1"
    "set_calls (events ?w1) = set_calls (events w) @ [c]"
    by (simp_all add: set_obs_source_def c)
  ultimately show ?thesis by blast
qed

lemma apply_routes_Cons_fails:
  assumes "route_call (host w) (special_sources w) adm d conf = None"
    and "apply_routes adm d (conf # confs) w = Some (res, w')"
  shows "res \<noteq> Inr () \<and> host w' = host w \<and> special_sources w' = special_sources w \<and>
         set_calls (events w') = set_calls (events w)"
proof (cases "map_of (special_sources w) (obs_device conf)")
  case None
  with assms(2) show ?thesis
    by (auto simp: get_obs_audio_device_name_closed)
next
  case (Some label)
  with assms(1) have
    "\<forall>dev. select_device (host w) adm Attr_name (device_name conf) (Some d) \<noteq> Some (Inr (PyDevice dev))"
    by (auto simp: route_call_def split: option.splits sum.splits pyval.splits)
  with Some assms(2) show ?thesis
    by (cases d)
       (auto simp: get_obs_audio_device_name_closed input_by_name_def output_by_name_def
          device_by_name_replace set_obs_source_def
          split: option.splits sum.splits pyval.splits if_splits)
qed

lemma apply_routes_calls:
  assumes "apply_routes adm d confs w = Some (res, w')"
  shows "host w' = host w \<and> special_sources w' = special_sources w \<and>
         map Some (set_calls (events w')) =
           map Some (set_calls (events w))
           @ takeWhile (\<lambda>c. c \<noteq> None) (map (route_call (host w) (special_sources w) adm d) confs) \<and>
         (res = Inr ()) = (None \<notin> set (map (route_call (host w) (special_sources w) adm d) confs))"
  using assms
proof (induction confs arbitrary: w)
  case Nil
  then show ?case by auto
next
  case (Cons conf confs)
  show ?case
  proof (cases "route_call (host w) (special_sources w) adm d conf")
    case None
    from apply_routes_Cons_fails[OF None Cons.prems] None show ?thesis by simp
  next
    case (Some c)
    from apply_routes_Cons_ok[OF Some, of confs] obtain w1 where
      w1: "apply_routes adm d (conf # confs) w = apply_routes adm d confs w1"
        "host w1 = host w" "special_sources w1 = special_sources w"
        "set_calls (events w1) = set_calls (events w) @ [c]"
      by blast
    from Cons.prems w1(1) have "apply_routes adm d confs w1 = Some (res, w')" by simp
    from Cons.IH[OF this] w1(2-) Some show ?thesis by simp
  qed
qed

lemma apply_routes_returns:
  assumes "default_input adm \<noteq> ''default''"
  shows "\<exists>r. apply_routes adm d confs w = Some r"
proof (induction confs arbitrary: w)
  case Nil
  show ?case by simp
next
  case (Cons conf confs)
  obtain r where r: "device_by_name adm (device_name conf) d True
                       (emit (WsCall GetSpecialSources) (connect w)) = Some r"
    using device_by_name_returns[OF assms] by blast
  obtain v w2 where vw: "r = (v, w2)" by (cases r)
  show ?case
  proof (cases "map_of (special_sources w) (obs_device conf)")
    case None
    then show ?thesis by (simp add: get_obs_audio_device_name_closed)
  next
    case (Some label)
    show ?thesis
    proof (cases v)
      case (Inl e)
      with Some r vw show ?thesis
        by (cases d)
           (simp_all add: get_obs_audio_device_name_closed input_by_name_def output_by_name_def)
    next
      case (Inr dev)
      obtain u w3 where s: "set_obs_source label dev w2 = (u, w3)"
        by (cases "set_obs_source label dev w2")
      from Cons.IH[of w3] obtain r' where "apply_routes adm d confs w3 = Some r'" by blast
      with Some r vw Inr s show ?thesis
        by (cases d; cases u)
           (simp_all add: get_obs_audio_device_name_closed input_by_name_def output_by_name_def)
    qed
  qed
qed

subsection \<open>The two loops together\<close>

lemma pass_unfold:
  "set_audio_device_settings cfg adm w =
     (case apply_routes adm True (inputs cfg)
             (if inputs cfg \<noteq> [] then print (CHR 0x0A # ''Setting Input devices'') w else w) of
        None \<Rightarrow> None
      | Some (Inl e, w1) \<Rightarrow> Some (Inl e, w1)
      | Some (Inr u, w1) \<Rightarrow>
          apply_routes adm False (outputs cfg)
            (if outputs cfg \<noteq> [] then print (CHR 0x0A # ''Setting Output devices'') w1 else w1))"
  by (simp add: set_audio_device_settings_def split: option.splits sum.splits prod.splits)

lemma takeWhile_all:
  assumes "None \<notin> set xs"
  shows "takeWhile (\<lambda>c. c \<noteq> None) (xs @ ys) = xs @ takeWhile (\<lambda>c. c \<noteq> None) ys"
proof (rule takeWhile_append2)
  fix x
  assume "x \<in> set xs"
  with assms show "x \<noteq> None" by (cases x) simp_all
qed

lemma takeWhile_stop:
  "None \<in> set xs \<Longrightarrow>
   takeWhile (\<lambda>c. c \<noteq> None) (xs @ ys) = takeWhile (\<lambda>c. c \<noteq> None) xs"
  by (rule takeWhile_append1[where x = None]) auto

lemma pass_calls:
  assumes "set_audio_device_settings cfg adm w = Some (res, w')"
  shows "map Some (set_calls (events w')) =
           map Some (set_calls (events w))
           @ takeWhile (\<lambda>c. c \<noteq> None)
               (map (route_call (host w) (special_sources w) adm True) (inputs cfg)
                @ map (route_call (host w) (special_sources w) adm False) (outputs cfg)) \<and>
         (res = Inr ()) =
           (None \<notin> set (map (route_call (host w) (special_sources w) adm True) (inputs cfg)
                         @ map (route_call (host w) (special_sources w) adm False) (outputs cfg)))"
proof -
  let ?w0 = "if inputs cfg \<noteq> [] then print (CHR 0x0A # ''Setting Input devices'') w else w"
  let ?ins = "map (route_call (host w) (special_sources w) adm True) (inputs cfg)"
  let ?outs = "map (route_call (host w) (special_sources w) adm False) (outputs cfg)"
  have w0: "host ?w0 = host w" "special_sources ?w0 = special_sources w"
    "set_calls (events ?w0) = set_calls (events w)"
    by simp_all
  from assms obtain r1 w1 where r1: "apply_routes adm True (inputs cfg) ?w0 = Some (r1, w1)"
    by (auto simp: pass_unfold split: option.splits)
  from apply_routes_calls[OF r1] have
    a: "host w1 = host w" "special_sources w1 = special_sources w"
       "map Some (set_calls (events w1)) =
          map Some (set_calls (events w)) @ takeWhile (\<lambda>c. c \<noteq> None) ?ins"
       "(r1 = Inr ()) = (None \<notin> set ?ins)"
    unfolding w0 by blast+
  show ?thesis
  proof (cases r1)
    case (Inl e)
    with assms r1 have "res = Inl e" "w' = w1" by (simp_all add: pass_unfold)
    moreover from Inl a(4) have stop: "None \<in> set ?ins" by blast
    ultimately show ?thesis using a(3) takeWhile_stop[OF stop, of ?outs] by auto
  next
    case (Inr u)
    let ?w2 = "if outputs cfg \<noteq> [] then print (CHR 0x0A # ''Setting Output devices'') w1 else w1"
    have w2: "host ?w2 = host w" "special_sources ?w2 = special_sources w"
      "set_calls (events ?w2) = set_calls (events w1)"
      using a(1,2) by simp_all
    from Inr assms r1 have r2: "apply_routes adm False (outputs cfg) ?w2 = Some (res, w')"
      by (simp add: pass_unfold)
    from Inr a(4) have ok: "None \<notin> set ?ins" by (simp del: set_map)
    from apply_routes_calls[OF r2] have
      b: "map Some (set_calls (events w')) =
            map Some (set_calls (events w1)) @ takeWhile (\<lambda>c. c \<noteq> None) ?outs"
         "(res = Inr ()) = (None \<notin> set ?outs)"
      unfolding w2 by blast+
    have tw: "takeWhile (\<lambda>c. c \<noteq> None) ?ins = ?ins"
      using takeWhile_all[OF ok, of "[]"] by (simp only: append_Nil2 takeWhile.simps)
    have "map Some (set_calls (events w')) =
            map Some (set_calls (events w)) @ takeWhile (\<lambda>c. c \<noteq> None) (?ins @ ?outs)"
      by (simp only: takeWhile_all[OF ok] b(1) a(3) tw append_assoc)
    moreover have "(res = Inr ()) = (None \<notin> set (?ins @ ?outs))"
      using b(2) ok by auto
    ultimately show ?thesis by blast
  qed
qed

lemma pass_returns:
  assumes "default_input adm \<noteq> ''default''"
  shows "\<exists>r. set_audio_device_settings cfg adm w = Some r"
proof -
  from apply_routes_returns[OF assms] obtain r where
    "apply_routes adm True (inputs cfg)
       (if inputs cfg \<noteq> [] then print (CHR 0x0A # ''Setting Input devices'') w else w)
     = Some r"
    by blast
  then obtain r1 w1 where r1:
    "apply_routes adm True (inputs cfg)
       (if inputs cfg \<noteq> [] then print (CHR 0x0A # ''Setting Input devices'') w else w)
     = Some (r1, w1)"
    by (cases r) simp
  show ?thesis
  proof (cases r1)
    case (Inl e)
    with r1 show ?thesis by (simp add: pass_unfold)
  next
    case (Inr u)
    with r1 apply_routes_returns[OF assms] show ?thesis by (simp add: pass_unfold)
  qed
qed

subsection \<open>A loop that meets an unresolvable route\<close>

lemma route_call_unresolvable:
  assumes "device_name bad \<noteq> ''default''"
    and "filter (\<lambda>x. dev_name x = device_name bad)
           (if d then all_microphones sc else all_speakers sc) = []"
  shows "route_call sc sp adm d bad = None"
  using assms
  by (simp add: route_call_def select_device_named first_match_def split: option.splits)

lemma device_by_name_unresolvable:
  assumes "name \<noteq> ''default''"
    and "filter (\<lambda>x. dev_name x = name)
           (if d then all_microphones (host w) else all_speakers (host w)) = []"
  shows "device_by_name adm name d replace_default w =
           Some (Inl ValueError,
                 print_device_listing False
                   (print (''Windows does not have a device called '' @ name) w))"
  using assms
  by (simp add: device_by_name_def select_device_named first_match_def)

lemma apply_routes_unresolvable:
  assumes "map_of (special_sources w) (obs_device bad) = Some label"
    and "device_name bad \<noteq> ''default''"
    and "filter (\<lambda>x. dev_name x = device_name bad)
           (if d then all_microphones (host w) else all_speakers (host w)) = []"
  shows "apply_routes adm d (bad # post) w =
           Some (Inl ValueError,
                 print_device_listing False
                   (print (''Windows does not have a device called '' @ device_name bad)
                      (emit (WsCall GetSpecialSources) (connect w))))"
  using assms
  by (cases d)
     (simp_all add: get_obs_audio_device_name_closed input_by_name_def output_by_name_def
        device_by_name_unresolvable)

lemma apply_routes_all_ok:
  assumes "None \<notin> set (map (route_call (host w) (special_sources w) adm d) confs)"
  shows "\<exists>w'. apply_routes adm d confs w = Some (Inr (), w') \<and>
               host w' = host w \<and> special_sources w' = special_sources w"
  using assms
proof (induction confs arbitrary: w)
  case Nil
  show ?case by simp
next
  case (Cons conf confs)
  then obtain c where c: "route_call (host w) (special_sources w) adm d conf = Some c"
    by (cases "route_call (host w) (special_sources w) adm d conf") auto
  from apply_routes_Cons_ok[OF c, of confs] obtain w1 where
    w1: "apply_routes adm d (conf # confs) w = apply_routes adm d confs w1"
      "host w1 = host w" "special_sources w1 = special_sources w"
    by blast
  from Cons.prems w1(2,3)
  have "None \<notin> set (map (route_call (host w1) (special_sources w1) adm d) confs)"
    by simp
  from Cons.IH[OF this] w1(2,3) show ?case
    unfolding w1(1) by simp
qed

lemma apply_routes_stops:
  assumes "None \<notin> set (map (route_call (host w) (special_sources w) adm d) pre)"
    and "map_of (special_sources w) (obs_device bad) = Some label"
    and "device_name bad \<noteq> ''default''"
    and "filter (\<lambda>x. dev_name x = device_name bad)
           (if d then all_microphones (host w) else all_speakers (host w)) = []"
  shows "\<exists>w'. apply_routes adm d (pre @ bad # post) w = Some (Inl ValueError, w') \<and>
               (''Windows does not have a device called '' @ device_name bad)
                 \<in> set (printed (events w'))"
  using assms
proof (induction pre arbitrary: w)
  case Nil
  then show ?case
    by (simp add: apply_routes_unresolvable print_device_listing_events del: apply_routes.simps)
next
  case (Cons conf pre)
  then obtain c where c: "route_call (host w) (special_sources w) adm d conf = Some c"
    by (cases "route_call (host w) (special_sources w) adm d conf") auto
  from apply_routes_Cons_ok[OF c, of "pre @ bad # post"] obtain w1 where
    w1: "apply_routes adm d (conf # pre @ bad # post) w = apply_routes adm d (pre @ bad # post) w1"
      "host w1 = host w" "special_sources w1 = special_sources w"
    by blast
  from Cons.prems w1(2,3) have
    "None \<notin> set (map (route_call (host w1) (special_sources w1) adm d) pre)"
    "map_of (special_sources w1) (obs_device bad) = Some label"
    "filter (\<lambda>x. dev_name x = device_name bad)
           (if d then all_microphones (host w1) else all_speakers (host w1)) = []"
    by (auto split: if_splits)
  from Cons.IH[OF this(1,2) Cons.prems(3) this(3)] show ?case
    unfolding append_Cons w1(1) .
qed

lemma routes_split:
  assumes "routes cfg = pre @ (d, bad) # post"
  shows "(d \<and> (\<exists>pre' post'. inputs cfg = pre' @ bad # post' \<and> pre = map (Pair True) pre')) \<or>
         (\<not> d \<and> (\<exists>pre' post'. outputs cfg = pre' @ bad # post' \<and>
                     pre = map (Pair True) (inputs cfg) @ map (Pair False) pre'))"
  using assms
  by (auto simp: routes_def append_eq_append_conv2 map_eq_append_conv append_eq_map_conv
        Cons_eq_append_conv Cons_eq_map_conv map_eq_Cons_conv append_eq_Cons_conv)

subsection \<open>The session automaton\<close>

lemma transport_append:
  "transport c (xs @ ys) = (case transport c xs of None \<Rightarrow> None | Some c' \<Rightarrow> transport c' ys)"
  by (induction c xs rule: transport.induct) simp_all

lemma session_ok_print [simp]: "session_ok (print s w) = session_ok w"
  by (simp add: session_ok_def transport_append split: option.splits)

lemma connect_idem: "connect (connect w) = connect w"
  by (simp add: connect_def)

lemma session_ok_connect: "session_ok w \<Longrightarrow> session_ok (connect w)"
  by (simp add: session_ok_def transport_append)

lemma session_ok_disconnect: "session_ok w \<Longrightarrow> session_ok (disconnect w)"
  by (simp add: session_ok_def transport_append)

lemma session_ok_ws_call:
  "session_ok w \<Longrightarrow> connected w \<Longrightarrow> session_ok (snd (ws_call req w))"
  by (simp add: session_ok_def transport_append)

lemma session_ok_call: "session_ok w \<Longrightarrow> session_ok (snd (call req w))"
  unfolding call_def by (rule session_ok_ws_call) (simp_all add: session_ok_connect)

lemma get_audio_devices_state:
  "snd (get_audio_devices w) = snd (ws_call GetSpecialSources (connect w))"
  by (simp add: get_audio_devices_def)

lemma get_obs_audio_device_name_state:
  "snd (get_obs_audio_device_name dv w) = snd (ws_call GetSpecialSources (connect w))"
  by (simp add: get_obs_audio_device_name_def split: option.splits)

lemma report_sources_session:
  assumes "session_ok w" and "connected w"
  shows "\<exists>res w'. report_sources adm names w = Some (res, w') \<and> session_ok w' \<and> connected w'"
  using assms
proof (induction names arbitrary: w)
  case Nil
  then show ?case by simp
next
  case (Cons n names)
  let ?w1 = "snd (ws_call (GetSourceSettings n) (connect w))"
  have "session_ok ?w1"
    by (rule session_ok_ws_call[OF session_ok_connect[OF Cons.prems(1)]]) simp
  moreover have "connected ?w1" by simp
  ultimately have w1: "session_ok ?w1" "connected ?w1" .
  have step: "\<exists>res w'. report_sources adm names (print s ?w1) = Some (res, w') \<and>
                session_ok w' \<and> connected w'" for s
    using Cons.IH[of "print s ?w1"] w1 by simp
  show ?case
  proof (cases "source_settings w n")
    case None
    with w1 show ?thesis by (simp add: get_audiodevice_settings_def)
  next
    case (Some ident)
    show ?thesis
    proof (cases "ident = ''default''")
      case True
      with Some step w1 show ?thesis
        by (simp add: get_audiodevice_settings_def device_by_id_closed)
    next
      case False
      show ?thesis
      proof (cases "filter (\<lambda>d. dev_id d = ident)
                      (all_speakers (host w) @ all_microphones (host w))")
        case Nil
        with Some False step w1 show ?thesis
          by (simp add: get_audiodevice_settings_def device_by_id_closed del: filter_append)
      next
        case (Cons d ds)
        with Some False step w1 show ?thesis
          by (simp add: get_audiodevice_settings_def device_by_id_closed del: filter_append)
      qed
    qed
  qed
qed

lemma print_sources_settings_session:
  assumes "session_ok w"
  shows "\<exists>res w'. print_sources_settings adm w = Some (res, w') \<and> session_ok w' \<and> connected w'"
proof -
  let ?w1 = "snd (ws_call GetSpecialSources (connect w))"
  have "session_ok ?w1"
    by (rule session_ok_ws_call[OF session_ok_connect[OF assms]]) simp
  moreover have "connected ?w1" by simp
  ultimately have w1: "session_ok ?w1" "connected ?w1" .
  show ?thesis
  proof (cases "''status'' \<in> set (map fst (special_sources w))")
    case False
    with w1 show ?thesis
      by (simp add: print_sources_settings_def get_audio_devices_def connect_idem)
  next
    case True
    with report_sources_session[OF w1, of adm
           "map snd (filter (\<lambda>kv. fst kv \<noteq> ''status'') (special_sources w))"]
    show ?thesis
      by (simp add: print_sources_settings_def get_audio_devices_def connect_idem)
  qed
qed

section \<open>Resolution of device specifications\<close>

text \<open>
  C2 (the code departs from the claim). The claim: when the remote controller returns
  the device id \<^verbatim>\<open>'default'\<close>, \<^verbatim>\<open>device_by_id\<close> returns the sentinel \<^verbatim>\<open>'default'\<close> and the
  source is reported as set to \<^verbatim>\<open>'default'\<close>. The code: \<^verbatim>\<open>select_device\<close> returns
  \<^verbatim>\<open>None\<close> for the value \<^verbatim>\<open>'default'\<close> before it filters, so no \<^verbatim>\<open>IndexError\<close> reaches the
  handler that would return the sentinel; \<^verbatim>\<open>device_by_id('default')\<close> is \<^verbatim>\<open>None\<close> on every
  host, and the report over three sources that are all set to \<^verbatim>\<open>'default'\<close> calls each
  of them a device id unknown to Windows.
\<close>

theorem default_id_reported_unknown:
  "device_by_id sc self ''default'' = Some (Inr PyNone) \<and>
   map_option (\<lambda>rw. (fst rw, printed (events (snd rw))))
     (print_sources_settings source_adm (example_world\<lparr>connected := True\<rparr>)) =
   Some (Inr (),
     [''Desktop Audio is set to a device-id unknown to Windows: '' @ quoted ''default'',
      ''Mic/Aux is set to a device-id unknown to Windows: '' @ quoted ''default'',
      ''Mic/Aux 2 is set to a device-id unknown to Windows: '' @ quoted ''default''])"
  by (simp add: device_by_id_closed print_sources_settings_def get_audio_devices_def
        get_audiodevice_settings_def example_defs)

text \<open>
  C3 (the code departs from the claim). The claim: resolving the default for a
  direction looks the default name of that direction up among the devices of that
  direction. The code: the branch for outputs passes \<^verbatim>\<open>True\<close> on, so
  \<^verbatim>\<open>get_default(False)\<close> looks \<^verbatim>\<open>default_output\<close> up among the microphones. On the
  example host, whose only speaker carries the default output name, resolving the
  default output raises \<^verbatim>\<open>IndexError\<close>, though the name is there among the speakers.
\<close>

theorem default_output_searched_among_inputs:
  "get_default sc self False = select_device sc self Attr_name (default_output self) (Some True) \<and>
   get_default example_host source_adm False = Some (Inl IndexError) \<and>
   output_by_name source_adm ''default'' True example_world = Some (Inl IndexError, example_world) \<and>
   first_match Attr_name (default_output source_adm) (all_speakers example_host)
     = Inr (PyDevice usb_speakers)"
  by (simp add: get_default_def select_device_default_output select_device_named
        output_by_name_def device_by_name_def first_match_def example_defs)

text \<open>
  C4 (amended). For every name other than \<^verbatim>\<open>'default'\<close> that is the name of at least
  one device of the requested direction, \<^verbatim>\<open>device_by_name\<close> returns the first such
  device in enumeration order, prints nothing and raises nothing: the unique device
  when the name occurs once, and the first of them, silently, when it occurs more than
  once.
\<close>

theorem device_by_name_first_match:
  assumes "name \<noteq> ''default''"
    and "filter (\<lambda>d. dev_name d = name)
           (if is_input then all_microphones (host w) else all_speakers (host w)) = x # rest"
  shows "device_by_name self name is_input replace_default w = Some (Inr (PyDevice x), w)"
  using assms
  by (simp add: device_by_name_def select_device_named first_match_def split: if_splits)

theorem device_by_name_first_match_witness:
  "''Headset Microphone (Rift S)'' \<noteq> ''default'' \<and>
   filter (\<lambda>d. dev_name d = ''Headset Microphone (Rift S)'')
     (if True then all_microphones (host example_world) else all_speakers (host example_world))
     = rift # [] \<and>
   device_by_name source_adm ''Headset Microphone (Rift S)'' True True example_world
     = Some (Inr (PyDevice rift), example_world)"
proof -
  have a: "''Headset Microphone (Rift S)'' \<noteq> ''default''" by simp
  have b: "filter (\<lambda>d. dev_name d = ''Headset Microphone (Rift S)'')
     (if True then all_microphones (host example_world) else all_speakers (host example_world))
     = rift # []"
    by (simp add: example_defs)
  from a b device_by_name_first_match[OF a b] show ?thesis by blast
qed

text \<open>
  C4 as stated fails: with two microphones named \<^verbatim>\<open>Mic\<close>, \<^verbatim>\<open>device_by_name('Mic')\<close>
  returns the first of them, and the state is unchanged: no error, no diagnostic.
\<close>

theorem duplicate_name_silent_first_match:
  "length (filter (\<lambda>d. dev_name d = ''Mic'')
     (all_microphones
        (host (example_world\<lparr>host := \<lparr>all_speakers = [],
           all_microphones = [\<lparr>dev_id = ''A'', dev_name = ''Mic''\<rparr>,
                              \<lparr>dev_id = ''B'', dev_name = ''Mic''\<rparr>]\<rparr>\<rparr>)))) = 2 \<and>
   device_by_name source_adm ''Mic'' True False
     (example_world\<lparr>host := \<lparr>all_speakers = [],
        all_microphones = [\<lparr>dev_id = ''A'', dev_name = ''Mic''\<rparr>,
                           \<lparr>dev_id = ''B'', dev_name = ''Mic''\<rparr>]\<rparr>\<rparr>)
   = Some (Inr (PyDevice \<lparr>dev_id = ''A'', dev_name = ''Mic''\<rparr>),
           example_world\<lparr>host := \<lparr>all_speakers = [],
             all_microphones = [\<lparr>dev_id = ''A'', dev_name = ''Mic''\<rparr>,
                                \<lparr>dev_id = ''B'', dev_name = ''Mic''\<rparr>]\<rparr>\<rparr>)"
  by (simp add: device_by_name_def select_device_named first_match_def example_defs)

text \<open>
  C6. For every native id other than \<^verbatim>\<open>'default'\<close> that no enumerated device (speakers
  and microphones) carries, \<^verbatim>\<open>device_by_id\<close> returns \<^verbatim>\<open>None\<close>: it raises nothing and
  returns no device.
\<close>

theorem device_by_id_not_found:
  assumes "ident \<noteq> ''default''"
    and "ident \<notin> dev_id ` set (all_speakers sc @ all_microphones sc)"
  shows "device_by_id sc self ident = Some (Inr PyNone)"
proof -
  from assms(2) have "filter (\<lambda>d. dev_id d = ident) (all_speakers sc @ all_microphones sc) = []"
    by (auto simp: filter_empty_conv)
  with assms(1) show ?thesis
    by (simp add: device_by_id_closed del: filter_append)
qed

theorem device_by_id_not_found_witness:
  "''usb-7'' \<noteq> ''default'' \<and>
   ''usb-7'' \<notin> dev_id ` set (all_speakers example_host @ all_microphones example_host) \<and>
   device_by_id example_host source_adm ''usb-7'' = Some (Inr PyNone)"
proof -
  have a: "''usb-7'' \<noteq> ''default''" by simp
  have b: "''usb-7'' \<notin> dev_id ` set (all_speakers example_host @ all_microphones example_host)"
    by (simp add: example_defs)
  from a b device_by_id_not_found[OF a b] show ?thesis by blast
qed

text \<open>
  C10 (amended). When neither default name is \<^verbatim>\<open>'default'\<close>, \<^verbatim>\<open>select_device\<close> and
  \<^verbatim>\<open>device_by_name\<close> return (a value or an exception) for every argument. For the
  input direction they return whenever the default input name is not \<^verbatim>\<open>'default'\<close>,
  whatever the default output name is. When the default input name is \<^verbatim>\<open>'default'\<close>,
  resolving \<^verbatim>\<open>'default'\<close> for the input direction never returns; when both default
  names are \<^verbatim>\<open>'default'\<close>, resolving \<^verbatim>\<open>'default'\<close> for the output direction never
  returns either.
\<close>

theorem resolution_termination:
  "(default_input self \<noteq> ''default'' \<and> default_output self \<noteq> ''default'' \<longrightarrow>
      (\<exists>r. select_device sc self p v d = Some r) \<and>
      (\<exists>r. device_by_name self name is_input replace_default w = Some r)) \<and>
   (default_input self \<noteq> ''default'' \<longrightarrow>
      (\<exists>r. select_device sc self p v (Some True) = Some r) \<and>
      (\<exists>r. device_by_name self name True replace_default w = Some r)) \<and>
   (default_input self = ''default'' \<longrightarrow>
      select_device sc self p ''default'' (Some True) = None \<and>
      device_by_name self ''default'' True replace_default w = None) \<and>
   (default_input self = ''default'' \<and> default_output self = ''default'' \<longrightarrow>
      select_device sc self p ''default'' (Some False) = None \<and>
      device_by_name self ''default'' False replace_default w = None)"
proof (intro conjI impI)
  assume "default_input self \<noteq> ''default'' \<and> default_output self \<noteq> ''default''"
  then have a: "default_input self \<noteq> ''default''" by simp
  show "\<exists>r. select_device sc self p v d = Some r" by (rule select_device_returns[OF a])
  show "\<exists>r. device_by_name self name is_input replace_default w = Some r"
    by (rule device_by_name_returns[OF a])
next
  assume a: "default_input self \<noteq> ''default''"
  show "\<exists>r. select_device sc self p v (Some True) = Some r"
    by (rule select_device_returns[OF a])
  show "\<exists>r. device_by_name self name True replace_default w = Some r"
    by (rule device_by_name_returns[OF a])
next
  assume a: "default_input self = ''default''"
  show "select_device sc self p ''default'' (Some True) = None"
    by (rule select_device_loops[OF a])
  show "device_by_name self ''default'' True replace_default w = None"
    by (simp add: device_by_name_def get_default_def select_device_loops[OF a])
next
  assume "default_input self = ''default'' \<and> default_output self = ''default''"
  then have a: "default_input self = ''default''" and b: "default_output self = ''default''"
    by simp_all
  show "select_device sc self p ''default'' (Some False) = None"
    by (simp add: select_device_default_output b select_device_loops[OF a])
  show "device_by_name self ''default'' False replace_default w = None"
    by (simp add: device_by_name_def get_default_def select_device_default_output b
          select_device_loops[OF a])
qed

theorem resolution_termination_witness:
  "default_input source_adm \<noteq> ''default'' \<and> default_output source_adm \<noteq> ''default'' \<and>
   (\<exists>r. select_device example_host source_adm Attr_name ''default'' (Some False) = Some r) \<and>
   (\<exists>r. device_by_name source_adm ''default'' False True example_world = Some r) \<and>
   default_input (source_adm\<lparr>default_output := ''default''\<rparr>) \<noteq> ''default'' \<and>
   (\<exists>r. select_device example_host (source_adm\<lparr>default_output := ''default''\<rparr>)
          Attr_name ''default'' (Some True) = Some r) \<and>
   (\<exists>r. device_by_name (source_adm\<lparr>default_output := ''default''\<rparr>) ''default'' True True
          example_world = Some r) \<and>
   default_input (source_adm\<lparr>default_input := ''default'', default_output := ''default''\<rparr>)
     = ''default'' \<and>
   default_output (source_adm\<lparr>default_input := ''default'', default_output := ''default''\<rparr>)
     = ''default'' \<and>
   select_device example_host
     (source_adm\<lparr>default_input := ''default'', default_output := ''default''\<rparr>)
     Attr_name ''default'' (Some True) = None \<and>
   select_device example_host
     (source_adm\<lparr>default_input := ''default'', default_output := ''default''\<rparr>)
     Attr_name ''default'' (Some False) = None"
  using resolution_termination[of source_adm example_host Attr_name "''default''" "Some False"
          "''default''" False True example_world]
        resolution_termination[of "source_adm\<lparr>default_output := ''default''\<rparr>"
          example_host Attr_name "''default''" "Some False" "''default''" False True example_world]
        resolution_termination[of "source_adm\<lparr>default_input := ''default'', default_output := ''default''\<rparr>"
          example_host Attr_name "''default''" "Some False" "''default''" False True example_world]
  by (simp add: source_adm_def)

text \<open>
  C10 as stated fails: with \<^verbatim>\<open>default_output\<close> equal to \<^verbatim>\<open>'default'\<close> and a default
  input name that is a microphone of the host, \<^verbatim>\<open>select_device('name', 'default', True)\<close>
  returns that microphone.
\<close>

theorem input_resolution_ignores_default_output:
  "default_output (source_adm\<lparr>default_output := ''default''\<rparr>) = ''default'' \<and>
   select_device example_host (source_adm\<lparr>default_output := ''default''\<rparr>)
     Attr_name ''default'' (Some True) = Some (Inr (PyDevice rift))"
  by (simp add: select_device_default_input select_device_named first_match_def example_defs)

section \<open>Properties of the synchronisation pass\<close>

text \<open>
  C5 (amended). For every name other than \<^verbatim>\<open>'default'\<close> that matches no device of the
  requested direction, \<^verbatim>\<open>device_by_name\<close> raises \<^verbatim>\<open>ValueError\<close> after printing the
  line that names the requested device and then the listing of all available devices
  (the output devices under their heading, then the input devices under theirs, a group
  without devices printing nothing); it sends no request, and a loop of the pass that
  reaches such a route ends there with an exception and without a
  \<^verbatim>\<open>SetSourceSettings\<close>.
\<close>

theorem device_not_found:
  assumes "name \<noteq> ''default''"
    and "filter (\<lambda>x. dev_name x = name)
           (if is_input then all_microphones (host w) else all_speakers (host w)) = []"
  shows "\<exists>w'. device_by_name self name is_input replace_default w = Some (Inl ValueError, w') \<and>
               printed (events w') =
                 printed (events w)
                 @ [''Windows does not have a device called '' @ name]
                 @ (if all_speakers (host w) = [] then []
                    else (CHR 0x0A # ''Available audio output devices:'')
                         # map dev_name (all_speakers (host w)))
                 @ (if all_microphones (host w) = [] then []
                    else (CHR 0x0A # ''Available audio input devices:'')
                         # map dev_name (all_microphones (host w))) \<and>
               rpc_calls (events w') = rpc_calls (events w) \<and>
               (\<forall>od confs. \<exists>e w''.
                  apply_routes self is_input (\<lparr>obs_device = od, device_name = name\<rparr> # confs) w
                    = Some (Inl e, w'') \<and>
                  set_calls (events w'') = set_calls (events w))"
proof -
  let ?w' = "print_device_listing False
               (print (''Windows does not have a device called '' @ name) w)"
  have r: "device_by_name self name is_input replace_default w = Some (Inl ValueError, ?w')"
    by (rule device_by_name_unresolvable[OF assms])
  have p: "printed (events ?w') =
                 printed (events w)
                 @ [''Windows does not have a device called '' @ name]
                 @ (if all_speakers (host w) = [] then []
                    else (CHR 0x0A # ''Available audio output devices:'')
                         # map dev_name (all_speakers (host w)))
                 @ (if all_microphones (host w) = [] then []
                    else (CHR 0x0A # ''Available audio input devices:'')
                         # map dev_name (all_microphones (host w)))"
    by (simp add: print_device_listing_events template_def)
  have q: "rpc_calls (events ?w') = rpc_calls (events w)"
    by (simp add: print_device_listing_events)
  have s: "\<exists>e w''. apply_routes self is_input (\<lparr>obs_device = od, device_name = name\<rparr> # confs) w
                    = Some (Inl e, w'') \<and> set_calls (events w'') = set_calls (events w)"
    for od confs
  proof (cases "map_of (special_sources w) od")
    case None
    then show ?thesis by (simp add: get_obs_audio_device_name_closed)
  next
    case (Some label)
    with assms
      apply_routes_unresolvable[of w "\<lparr>obs_device = od, device_name = name\<rparr>" label is_input self confs]
    show ?thesis by (simp del: apply_routes.simps)
  qed
  from r p q s show ?thesis by blast
qed

theorem device_not_found_witness:
  "''Headset Microphone'' \<noteq> ''default'' \<and>
   filter (\<lambda>x. dev_name x = ''Headset Microphone'')
     (if True
      then all_microphones (host (example_world\<lparr>host := \<lparr>all_speakers = [usb_speakers], all_microphones = []\<rparr>\<rparr>))
      else all_speakers (host (example_world\<lparr>host := \<lparr>all_speakers = [usb_speakers], all_microphones = []\<rparr>\<rparr>)))
     = [] \<and>
   (\<exists>w'. device_by_name source_adm ''Headset Microphone'' True True
            (example_world\<lparr>host := \<lparr>all_speakers = [usb_speakers], all_microphones = []\<rparr>\<rparr>)
          = Some (Inl ValueError, w') \<and>
          printed (events w') =
            [''Windows does not have a device called Headset Microphone'',
             CHR 0x0A # ''Available audio output devices:'',
             ''Speakers (USB Audio Device)''] \<and>
          rpc_calls (events w') = [])"
proof -
  let ?w = "example_world\<lparr>host := \<lparr>all_speakers = [usb_speakers], all_microphones = []\<rparr>\<rparr>"
  have a: "''Headset Microphone'' \<noteq> ''default''" by simp
  have b: "filter (\<lambda>x. dev_name x = ''Headset Microphone'')
     (if True then all_microphones (host ?w) else all_speakers (host ?w)) = []"
    by simp
  from device_not_found[OF a b, of source_adm True] obtain w' where
    "device_by_name source_adm ''Headset Microphone'' True True ?w = Some (Inl ValueError, w')"
    "printed (events w') =
       printed (events ?w)
       @ [''Windows does not have a device called '' @ ''Headset Microphone'']
       @ (if all_speakers (host ?w) = [] then []
          else (CHR 0x0A # ''Available audio output devices:'') # map dev_name (all_speakers (host ?w)))
       @ (if all_microphones (host ?w) = [] then []
          else (CHR 0x0A # ''Available audio input devices:'') # map dev_name (all_microphones (host ?w)))"
    "rpc_calls (events w') = rpc_calls (events ?w)"
    by blast
  then have "device_by_name source_adm ''Headset Microphone'' True True ?w = Some (Inl ValueError, w') \<and>
          printed (events w') =
            [''Windows does not have a device called Headset Microphone'',
             CHR 0x0A # ''Available audio output devices:'',
             ''Speakers (USB Audio Device)''] \<and>
          rpc_calls (events w') = []"
    by (simp add: example_defs)
  with a b show ?thesis by blast
qed

text \<open>
  C5 as stated fails for the name \<^verbatim>\<open>'default'\<close>: no microphone of the example host
  has that name, and yet \<^verbatim>\<open>device_by_name('default')\<close> returns the microphone that
  \<^verbatim>\<open>default_input\<close> names, with and without \<^verbatim>\<open>replace_default\<close>; no \<^verbatim>\<open>ValueError\<close>,
  nothing printed.
\<close>

theorem default_name_is_not_looked_up:
  "filter (\<lambda>x. dev_name x = ''default'') (all_microphones (host example_world)) = [] \<and>
   device_by_name source_adm ''default'' True True example_world
     = Some (Inr (PyDevice rift), example_world) \<and>
   device_by_name source_adm ''default'' True False example_world
     = Some (Inr (PyDevice rift), example_world)"
  by (simp add: device_by_name_def get_default_def select_device_default_input select_device_named
        first_match_def example_defs)

text \<open>
  C9. With the single input route from \<^verbatim>\<open>mic-1\<close> to \<^verbatim>\<open>Headset Microphone\<close> and no
  output route, on a host with exactly one microphone of that name, whose id is
  \<^verbatim>\<open>A1\<close>, the pass succeeds and its requests are \<^verbatim>\<open>GetSpecialSources\<close> (to resolve the
  label of \<^verbatim>\<open>mic-1\<close>) and then the one \<^verbatim>\<open>SetSourceSettings\<close> with that label as
  \<^verbatim>\<open>sourceName\<close> and \<^verbatim>\<open>A1\<close> as \<^verbatim>\<open>device_id\<close>.
\<close>

theorem single_input_route:
  assumes "map_of (special_sources w) ''mic-1'' = Some label"
    and "filter (\<lambda>x. dev_name x = ''Headset Microphone'') (all_microphones (host w)) = [dev]"
    and "dev_id dev = ''A1''"
  shows "\<exists>w'. set_audio_device_settings
                 \<lparr>inputs = [\<lparr>obs_device = ''mic-1'', device_name = ''Headset Microphone''\<rparr>],
                  outputs = []\<rparr> adm w
               = Some (Inr (), w') \<and>
               rpc_calls (events w') =
                 rpc_calls (events w) @ [GetSpecialSources, SetSourceSettings label ''A1''] \<and>
               set_calls (events w') = set_calls (events w) @ [(label, ''A1'')]"
  using assms
  by (simp add: set_audio_device_settings_def get_obs_audio_device_name_closed input_by_name_def
        device_by_name_def select_device_named first_match_def set_obs_source_def)

theorem single_input_route_witness:
  "map_of (special_sources
            (example_world\<lparr>host := \<lparr>all_speakers = [usb_speakers],
               all_microphones = [rift, \<lparr>dev_id = ''A1'', dev_name = ''Headset Microphone''\<rparr>]\<rparr>\<rparr>))
     ''mic-1'' = Some ''Mic/Aux'' \<and>
   filter (\<lambda>x. dev_name x = ''Headset Microphone'')
     (all_microphones (host
        (example_world\<lparr>host := \<lparr>all_speakers = [usb_speakers],
           all_microphones = [rift, \<lparr>dev_id = ''A1'', dev_name = ''Headset Microphone''\<rparr>]\<rparr>\<rparr>)))
     = [\<lparr>dev_id = ''A1'', dev_name = ''Headset Microphone''\<rparr>] \<and>
   dev_id \<lparr>dev_id = ''A1'', dev_name = ''Headset Microphone''\<rparr> = ''A1'' \<and>
   (\<exists>w'. set_audio_device_settings
            \<lparr>inputs = [\<lparr>obs_device = ''mic-1'', device_name = ''Headset Microphone''\<rparr>],
             outputs = []\<rparr> source_adm
            (example_world\<lparr>host := \<lparr>all_speakers = [usb_speakers],
               all_microphones = [rift, \<lparr>dev_id = ''A1'', dev_name = ''Headset Microphone''\<rparr>]\<rparr>\<rparr>)
          = Some (Inr (), w') \<and>
          rpc_calls (events w') = [GetSpecialSources, SetSourceSettings ''Mic/Aux'' ''A1''])"
proof -
  let ?d = "\<lparr>dev_id = ''A1'', dev_name = ''Headset Microphone''\<rparr>"
  let ?w = "example_world\<lparr>host := \<lparr>all_speakers = [usb_speakers], all_microphones = [rift, ?d]\<rparr>\<rparr>"
  have a: "map_of (special_sources ?w) ''mic-1'' = Some ''Mic/Aux''"
    by (simp add: example_defs)
  have b: "filter (\<lambda>x. dev_name x = ''Headset Microphone'') (all_microphones (host ?w)) = [?d]"
    by (simp add: example_defs)
  have c: "dev_id ?d = ''A1''" by simp
  from single_input_route[OF a b c, of source_adm] obtain w' where
    "set_audio_device_settings
            \<lparr>inputs = [\<lparr>obs_device = ''mic-1'', device_name = ''Headset Microphone''\<rparr>],
             outputs = []\<rparr> source_adm ?w = Some (Inr (), w')"
    "rpc_calls (events w') =
       rpc_calls (events ?w) @ [GetSpecialSources, SetSourceSettings ''Mic/Aux'' ''A1'']"
    by blast
  then have "set_audio_device_settings
            \<lparr>inputs = [\<lparr>obs_device = ''mic-1'', device_name = ''Headset Microphone''\<rparr>],
             outputs = []\<rparr> source_adm ?w = Some (Inr (), w') \<and>
          rpc_calls (events w') = [GetSpecialSources, SetSourceSettings ''Mic/Aux'' ''A1'']"
    by (simp add: example_world_def)
  with a b c show ?thesis by blast
qed

text \<open>
  C8. The \<^verbatim>\<open>SetSourceSettings\<close> requests of a pass are, in this order, those of the
  input routes in configuration order and then those of the output routes in
  configuration order: the pass sends them for the longest prefix of that sequence in
  which every route can be applied, it ends without an exception exactly when that is
  the whole sequence, and it returns whenever the default input name is not
  \<^verbatim>\<open>'default'\<close>.
\<close>

theorem calls_in_configuration_order:
  "(default_input adm \<noteq> ''default'' \<longrightarrow> (\<exists>r. set_audio_device_settings cfg adm w = Some r)) \<and>
   (\<forall>res w'. set_audio_device_settings cfg adm w = Some (res, w') \<longrightarrow>
      map Some (set_calls (events w')) =
        map Some (set_calls (events w))
        @ takeWhile (\<lambda>c. c \<noteq> None)
            (map (route_call (host w) (special_sources w) adm True) (inputs cfg)
             @ map (route_call (host w) (special_sources w) adm False) (outputs cfg)) \<and>
      (res = Inr ()) =
        (None \<notin> set (map (route_call (host w) (special_sources w) adm True) (inputs cfg)
                      @ map (route_call (host w) (special_sources w) adm False) (outputs cfg))))"
  using pass_returns pass_calls by blast

theorem calls_in_configuration_order_witness:
  "default_input source_adm \<noteq> ''default'' \<and>
   (\<exists>w'. set_audio_device_settings source_config source_adm example_world = Some (Inr (), w') \<and>
          set_calls (events w') =
            [(''Mic/Aux'', ''A1''), (''Mic/Aux 2'', ''A1''), (''Desktop Audio'', ''S1'')])"
proof -
  have d: "default_input source_adm \<noteq> ''default''" by (simp add: source_adm_def)
  have p: "map (route_call (host example_world) (special_sources example_world) source_adm True)
             (inputs source_config)
           @ map (route_call (host example_world) (special_sources example_world) source_adm False)
               (outputs source_config)
           = [Some (''Mic/Aux'', ''A1''), Some (''Mic/Aux 2'', ''A1''), Some (''Desktop Audio'', ''S1'')]"
    by (simp add: route_call_def select_device_named select_device_default_input first_match_def
          example_defs)
  note t = calls_in_configuration_order[of source_adm source_config example_world]
  from t d obtain res w' where
    r: "set_audio_device_settings source_config source_adm example_world = Some (res, w')"
    by fastforce
  from t r have
    "map Some (set_calls (events w')) =
       map Some (set_calls (events example_world))
       @ takeWhile (\<lambda>c. c \<noteq> None)
           (map (route_call (host example_world) (special_sources example_world) source_adm True)
              (inputs source_config)
            @ map (route_call (host example_world) (special_sources example_world) source_adm False)
                (outputs source_config))"
    and "(res = Inr ()) =
       (None \<notin> set (map (route_call (host example_world) (special_sources example_world) source_adm True)
              (inputs source_config)
            @ map (route_call (host example_world) (special_sources example_world) source_adm False)
                (outputs source_config)))"
    by blast+
  then have "map Some (set_calls (events w')) =
       map Some [(''Mic/Aux'', ''A1''), (''Mic/Aux 2'', ''A1''), (''Desktop Audio'', ''S1'')]"
    and "res = Inr ()"
    unfolding p by (simp_all add: example_world_def)
  then have "set_calls (events w') =
       [(''Mic/Aux'', ''A1''), (''Mic/Aux 2'', ''A1''), (''Desktop Audio'', ''S1'')]"
    and "res = Inr ()"
    by (simp_all only: inj_map_eq_map[OF inj_Some])
  with r d show ?thesis by blast
qed

text \<open>
  C1 (amended). When the pass reaches a route for whose \<^verbatim>\<open>obs_device\<close> the answer
  to \<^verbatim>\<open>GetSpecialSources\<close> has a label and whose device name (other than
  \<^verbatim>\<open>'default'\<close>) matches no device of its direction, every route before it (inputs
  first, then outputs) having been applied, it prints the diagnostic for that route and
  ends with \<^verbatim>\<open>ValueError\<close>: \<^verbatim>\<open>SetSourceSettings\<close> has been sent for exactly the routes
  before it, and for none after it.
\<close>

theorem pass_aborts_at_unresolvable_route:
  assumes "routes cfg = pre @ (d, bad) # post"
    and "None \<notin> set (map (\<lambda>dr. route_call (host w) (special_sources w) adm (fst dr) (snd dr)) pre)"
    and "map_of (special_sources w) (obs_device bad) = Some label"
    and "device_name bad \<noteq> ''default''"
    and "filter (\<lambda>x. dev_name x = device_name bad)
           (if d then all_microphones (host w) else all_speakers (host w)) = []"
  shows "\<exists>w'. set_audio_device_settings cfg adm w = Some (Inl ValueError, w') \<and>
               map Some (set_calls (events w')) =
                 map Some (set_calls (events w))
                 @ map (\<lambda>dr. route_call (host w) (special_sources w) adm (fst dr) (snd dr)) pre \<and>
               (''Windows does not have a device called '' @ device_name bad)
                 \<in> set (printed (events w'))"
proof -
  let ?f = "\<lambda>dr. route_call (host w) (special_sources w) adm (fst dr) (snd dr)"
  let ?w0 = "if inputs cfg \<noteq> [] then print (CHR 0x0A # ''Setting Input devices'') w else w"
  have w0: "host ?w0 = host w" "special_sources ?w0 = special_sources w" by simp_all
  have bad: "?f (d, bad) = None"
    using route_call_unresolvable[OF assms(4), of d "host w"] assms(5) by simp
  have plan: "map (route_call (host w) (special_sources w) adm True) (inputs cfg)
              @ map (route_call (host w) (special_sources w) adm False) (outputs cfg)
              = map ?f pre @ None # map ?f post"
    using arg_cong[OF assms(1), of "map ?f"] bad by (simp add: routes_def comp_def)
  have tw: "takeWhile (\<lambda>c. c \<noteq> None) (map ?f pre @ None # map ?f post) = map ?f pre"
    using takeWhile_all[OF assms(2), of "None # map ?f post"] by simp
  have "\<exists>w'. set_audio_device_settings cfg adm w = Some (Inl ValueError, w') \<and>
              (''Windows does not have a device called '' @ device_name bad)
                 \<in> set (printed (events w'))"
  proof -
    from routes_split[OF assms(1)] consider
      (ins) pre' post' where "d" "inputs cfg = pre' @ bad # post'" "pre = map (Pair True) pre'"
    | (outs) pre' post' where "\<not> d" "outputs cfg = pre' @ bad # post'"
        "pre = map (Pair True) (inputs cfg) @ map (Pair False) pre'"
      by blast
    then show ?thesis
    proof cases
      case ins
      from assms(2) ins(1,3)
      have ok: "None \<notin> set (map (route_call (host ?w0) (special_sources ?w0) adm d) pre')"
        unfolding w0 by (simp add: comp_def)
      from assms(3,5) have "map_of (special_sources ?w0) (obs_device bad) = Some label"
        "filter (\<lambda>x. dev_name x = device_name bad)
           (if d then all_microphones (host ?w0) else all_speakers (host ?w0)) = []"
        unfolding w0 by simp_all
      from apply_routes_stops[OF ok this(1) assms(4) this(2), of post'] ins(1,2)
      show ?thesis by (auto simp: pass_unfold)
    next
      case outs
      from assms(2) outs(3)
      have ok1: "None \<notin> set (map (route_call (host ?w0) (special_sources ?w0) adm True) (inputs cfg))"
        unfolding w0 by (simp add: comp_def)
      from apply_routes_all_ok[OF ok1] obtain w1 where
        w1: "apply_routes adm True (inputs cfg) ?w0 = Some (Inr (), w1)"
          "host w1 = host w" "special_sources w1 = special_sources w"
        unfolding w0 by blast
      let ?w2 = "if outputs cfg \<noteq> [] then print (CHR 0x0A # ''Setting Output devices'') w1 else w1"
      have w2: "host ?w2 = host w" "special_sources ?w2 = special_sources w"
        using w1(2,3) by simp_all
      from assms(2) outs(1,3)
      have ok2: "None \<notin> set (map (route_call (host ?w2) (special_sources ?w2) adm d) pre')"
        unfolding w2 by (simp add: comp_def)
      from assms(3,5) have "map_of (special_sources ?w2) (obs_device bad) = Some label"
        "filter (\<lambda>x. dev_name x = device_name bad)
           (if d then all_microphones (host ?w2) else all_speakers (host ?w2)) = []"
        unfolding w2 by simp_all
      from apply_routes_stops[OF ok2 this(1) assms(4) this(2), of post'] outs(1,2) w1(1)
      show ?thesis by (auto simp: pass_unfold)
    qed
  qed
  then obtain w' where
    r: "set_audio_device_settings cfg adm w = Some (Inl ValueError, w')" and
    p: "(''Windows does not have a device called '' @ device_name bad) \<in> set (printed (events w'))"
    by blast
  from pass_calls[OF r] have
    "map Some (set_calls (events w')) = map Some (set_calls (events w)) @ map ?f pre"
    unfolding plan tw by blast
  with r p show ?thesis by blast
qed

theorem pass_aborts_at_unresolvable_route_witness:
  "routes source_config =
     [(True, \<lparr>obs_device = ''mic-1'', device_name = ''Headset Microphone (Rift S)''\<rparr>),
      (True, \<lparr>obs_device = ''mic-2'', device_name = ''default''\<rparr>)]
     @ (False, \<lparr>obs_device = ''desktop-1'', device_name = ''Speakers (USB Audio Device)''\<rparr>) # [] \<and>
   (\<exists>w'. set_audio_device_settings source_config source_adm
            (example_world\<lparr>host := \<lparr>all_speakers = [], all_microphones = [rift]\<rparr>\<rparr>)
          = Some (Inl ValueError, w') \<and>
          set_calls (events w') = [(''Mic/Aux'', ''A1''), (''Mic/Aux 2'', ''A1'')] \<and>
          ''Windows does not have a device called Speakers (USB Audio Device)''
            \<in> set (printed (events w')))"
proof -
  let ?w = "example_world\<lparr>host := \<lparr>all_speakers = [], all_microphones = [rift]\<rparr>\<rparr>"
  let ?pre = "[(True, \<lparr>obs_device = ''mic-1'', device_name = ''Headset Microphone (Rift S)''\<rparr>),
               (True, \<lparr>obs_device = ''mic-2'', device_name = ''default''\<rparr>)]"
  let ?bad = "\<lparr>obs_device = ''desktop-1'', device_name = ''Speakers (USB Audio Device)''\<rparr>"
  have a: "routes source_config = ?pre @ (False, ?bad) # []"
    by (simp add: routes_def source_config_def)
  have p: "map (\<lambda>dr. route_call (host ?w) (special_sources ?w) source_adm (fst dr) (snd dr)) ?pre
           = [Some (''Mic/Aux'', ''A1''), Some (''Mic/Aux 2'', ''A1'')]"
    by (simp add: route_call_def select_device_named select_device_default_input first_match_def
          example_defs)
  have b: "None \<notin> set (map (\<lambda>dr. route_call (host ?w) (special_sources ?w) source_adm (fst dr) (snd dr)) ?pre)"
    unfolding p by simp
  have c: "map_of (special_sources ?w) (obs_device ?bad) = Some ''Desktop Audio''"
    by (simp add: example_defs)
  have d: "device_name ?bad \<noteq> ''default''" by simp
  have e: "filter (\<lambda>x. dev_name x = device_name ?bad)
             (if False then all_microphones (host ?w) else all_speakers (host ?w)) = []"
    by simp
  from pass_aborts_at_unresolvable_route[OF a b c d e] obtain w' where
    r: "set_audio_device_settings source_config source_adm ?w = Some (Inl ValueError, w')"
    and s: "map Some (set_calls (events w')) =
              map Some (set_calls (events ?w))
              @ map (\<lambda>dr. route_call (host ?w) (special_sources ?w) source_adm (fst dr) (snd dr)) ?pre"
    and t: "(''Windows does not have a device called '' @ device_name ?bad) \<in> set (printed (events w'))"
    by blast
  from s have "map Some (set_calls (events w')) = map Some [(''Mic/Aux'', ''A1''), (''Mic/Aux 2'', ''A1'')]"
    unfolding p by (simp add: example_world_def)
  then have s': "set_calls (events w') = [(''Mic/Aux'', ''A1''), (''Mic/Aux 2'', ''A1'')]"
    by (simp only: inj_map_eq_map[OF inj_Some])
  from t have t': "''Windows does not have a device called Speakers (USB Audio Device)''
            \<in> set (printed (events w'))" by simp
  from a r s' t' show ?thesis by blast
qed

text \<open>
  C1 as stated fails: with an unresolvable first input route, the pass ends with
  \<^verbatim>\<open>ValueError\<close> and has sent no \<^verbatim>\<open>SetSourceSettings\<close> at all, though the second input
  route and the output route can both be applied.
\<close>

theorem later_routes_not_applied:
  "route_call example_host (special_sources example_world) source_adm True
     \<lparr>obs_device = ''mic-2'', device_name = ''Headset Microphone (Rift S)''\<rparr>
     = Some (''Mic/Aux 2'', ''A1'') \<and>
   route_call example_host (special_sources example_world) source_adm False
     \<lparr>obs_device = ''desktop-1'', device_name = ''Speakers (USB Audio Device)''\<rparr>
     = Some (''Desktop Audio'', ''S1'') \<and>
   map_option (\<lambda>rw. (fst rw, set_calls (events (snd rw))))
     (set_audio_device_settings
        \<lparr>inputs = [\<lparr>obs_device = ''mic-1'', device_name = ''Unplugged Microphone''\<rparr>,
                   \<lparr>obs_device = ''mic-2'', device_name = ''Headset Microphone (Rift S)''\<rparr>],
         outputs = [\<lparr>obs_device = ''desktop-1'', device_name = ''Speakers (USB Audio Device)''\<rparr>]\<rparr>
        source_adm example_world)
     = Some (Inl ValueError, [])"
  by (simp add: set_audio_device_settings_def get_obs_audio_device_name_closed input_by_name_def
        device_by_name_def select_device_named first_match_def route_call_def example_defs)

section \<open>The session\<close>

text \<open>
  C7. \<^verbatim>\<open>connect()\<close> changes nothing when the session is connected and
  \<^verbatim>\<open>disconnect()\<close> nothing when it is not, so each is idempotent. On a session in
  order (the transport accepted every event so far: it was asked to connect only while
  disconnected and to send a request only while connected, and \<^verbatim>\<open>connected\<close> tells
  its state), each of \<^verbatim>\<open>call\<close>, \<^verbatim>\<open>get_audio_devices\<close>,
  \<^verbatim>\<open>get_obs_audio_device_name\<close>, \<^verbatim>\<open>get_audiodevice_settings\<close> and
  \<^verbatim>\<open>print_sources_settings\<close> returns, and leaves the session in order and connected:
  no request was sent while disconnected, and the transport was not asked to connect
  twice.
\<close>

theorem session_state_machine:
  "(connected w \<longrightarrow> connect w = w) \<and>
   (\<not> connected w \<longrightarrow> disconnect w = w) \<and>
   connect (connect w) = connect w \<and>
   disconnect (disconnect w) = disconnect w \<and>
   (session_ok w \<longrightarrow>
      session_ok (connect w) \<and> connected (connect w) \<and>
      session_ok (disconnect w) \<and> \<not> connected (disconnect w) \<and>
      session_ok (snd (call req w)) \<and> connected (snd (call req w)) \<and>
      session_ok (snd (get_audio_devices w)) \<and> connected (snd (get_audio_devices w)) \<and>
      session_ok (snd (get_obs_audio_device_name dv w)) \<and>
      connected (snd (get_obs_audio_device_name dv w)) \<and>
      session_ok (snd (get_audiodevice_settings src w)) \<and>
      connected (snd (get_audiodevice_settings src w)) \<and>
      (\<exists>res w'. print_sources_settings adm w = Some (res, w') \<and> session_ok w' \<and> connected w'))"
proof (intro conjI impI)
  assume ok: "session_ok w"
  show "session_ok (connect w)" by (rule session_ok_connect[OF ok])
  show "session_ok (disconnect w)" by (rule session_ok_disconnect[OF ok])
  show "session_ok (snd (call req w))" by (rule session_ok_call[OF ok])
  show "session_ok (snd (get_audio_devices w))"
    unfolding get_audio_devices_state
    by (rule session_ok_ws_call) (simp_all add: session_ok_connect ok)
  show "session_ok (snd (get_obs_audio_device_name dv w))"
    unfolding get_obs_audio_device_name_state
    by (rule session_ok_ws_call) (simp_all add: session_ok_connect ok)
  show "session_ok (snd (get_audiodevice_settings src w))"
    unfolding get_audiodevice_settings_def
    by (rule session_ok_ws_call) (simp_all add: session_ok_connect ok)
  show "\<exists>res w'. print_sources_settings adm w = Some (res, w') \<and> session_ok w' \<and> connected w'"
    by (rule print_sources_settings_session[OF ok])
qed (simp_all add: connect_def disconnect_def get_audio_devices_state
       get_obs_audio_device_name_state get_audiodevice_settings_def)

theorem session_state_machine_witness:
  "session_ok example_world \<and> \<not> connected example_world \<and>
   disconnect example_world = example_world \<and>
   session_ok (connect example_world) \<and> connected (connect example_world) \<and>
   connect (connect example_world) = connect example_world \<and>
   session_ok (snd (call GetSpecialSources example_world)) \<and>
   events (snd (call GetSpecialSources example_world)) =
     [WsConnect, Print ''OBS WebSocket connection established.'', WsCall GetSpecialSources] \<and>
   (\<exists>res w'. print_sources_settings source_adm example_world = Some (res, w') \<and>
              session_ok w' \<and> connected w')"
proof -
  have a: "session_ok example_world" "\<not> connected example_world"
    by (simp_all add: session_ok_def example_world_def)
  have e: "events (snd (call GetSpecialSources example_world)) =
     [WsConnect, Print ''OBS WebSocket connection established.'', WsCall GetSpecialSources]"
    by (simp add: example_world_def)
  note t1 = session_state_machine[of example_world GetSpecialSources "''mic-1''" "''Mic/Aux''" source_adm]
  note t2 = session_state_machine[of "connect example_world" GetSpecialSources "''mic-1''" "''Mic/Aux''" source_adm]
  from a t1 have
    "disconnect example_world = example_world"
    "session_ok (connect example_world)" "connected (connect example_world)"
    "session_ok (snd (call GetSpecialSources example_world))"
    "\<exists>res w'. print_sources_settings source_adm example_world = Some (res, w') \<and>
              session_ok w' \<and> connected w'"
    by blast+
  moreover from this(3) t2 have "connect (connect example_world) = connect example_world"
    by blast
  ultimately show ?thesis using a e by blast
qed

end
